theory Spec2Isabelle
  imports Main "HOL-Library.Word"
begin

unbundle bit_operations_syntax

section \<open>The declarations of moat\_internal.h\<close>

text \<open>
  The header declares a buffer capacity, one function, nine function types, two
  macros that declare the functions of a device class, one struct of function
  pointers and two constant tables. The sections below translate these
  declarations one by one. The build-time switch \<^verbatim>\<open>CONDITIONAL_SEARCH\<close> is a
  boolean argument of every definition whose text depends on it; the list of
  device classes that \<^verbatim>\<open>_def.h\<close> enumerates and the constant \<^verbatim>\<open>TC_MAX\<close> of
  \<^verbatim>\<open>moat.h\<close> are arguments as well, since neither file is part of the header.
\<close>

subsection \<open>Constants and C types\<close>

definition MAXBUF :: nat where
  "MAXBUF = 32"

datatype ctype = Void | Char | UInt8 | UInt16 | Ptr ctype

text \<open>
  The width of the fixed-width unsigned types. \<^verbatim>\<open>char\<close> has no entry: its
  signedness is the compiler's choice.
\<close>

fun uint_bits :: "ctype \<Rightarrow> nat option" where
  "uint_bits UInt8 = Some 8"
| "uint_bits UInt16 = Some 16"
| "uint_bits Void = None"
| "uint_bits Char = None"
| "uint_bits (Ptr t) = None"

definition holds_value :: "ctype \<Rightarrow> nat \<Rightarrow> bool" where
  "holds_value t v = (case uint_bits t of Some b \<Rightarrow> v < 2 ^ b | None \<Rightarrow> False)"

text \<open>A function type: the result type and the parameters in order, each with its name.\<close>

record fn_type =
  fn_ret :: ctype
  fn_params :: "(string \<times> ctype) list"

subsection \<open>The function and the function types\<close>

text \<open>\<^verbatim>\<open>void end_transmission(uint16_t crc);\<close>\<close>

definition end_transmission_decl :: fn_type where
  "end_transmission_decl = \<lparr>fn_ret = Void, fn_params = [(''crc'', UInt16)]\<rparr>"

definition init_fn :: fn_type where
  "init_fn = \<lparr>fn_ret = Void, fn_params = []\<rparr>"

definition poll_fn :: fn_type where
  "poll_fn = \<lparr>fn_ret = Void, fn_params = []\<rparr>"

definition read_len_fn :: fn_type where
  "read_len_fn = \<lparr>fn_ret = UInt8, fn_params = [(''chan'', UInt8)]\<rparr>"

definition read_fn :: fn_type where
  "read_fn = \<lparr>fn_ret = Void, fn_params = [(''chan'', UInt8), (''buf'', Ptr UInt8)]\<rparr>"

definition read_done_fn :: fn_type where
  "read_done_fn = \<lparr>fn_ret = Void, fn_params = [(''chan'', UInt8)]\<rparr>"

definition alert_check_fn :: fn_type where
  "alert_check_fn = \<lparr>fn_ret = Char, fn_params = []\<rparr>"

definition alert_fill_fn :: fn_type where
  "alert_fill_fn = \<lparr>fn_ret = Void, fn_params = [(''buf'', Ptr UInt8)]\<rparr>"

definition write_check_fn :: fn_type where
  "write_check_fn =
     \<lparr>fn_ret = Void, fn_params = [(''chan'', UInt8), (''buf'', Ptr UInt8), (''len'', UInt8)]\<rparr>"

definition write_fn :: fn_type where
  "write_fn =
     \<lparr>fn_ret = Void, fn_params = [(''chan'', UInt8), (''buf'', Ptr UInt8), (''len'', UInt8)]\<rparr>"

text \<open>The nine typedefs in the order of the header; none of them is under the switch.\<close>

definition fn_typedefs :: "(string \<times> fn_type) list" where
  "fn_typedefs =
     [(''init_fn'', init_fn), (''poll_fn'', poll_fn), (''read_len_fn'', read_len_fn),
      (''read_fn'', read_fn), (''read_done_fn'', read_done_fn),
      (''alert_check_fn'', alert_check_fn), (''alert_fill_fn'', alert_fill_fn),
      (''write_check_fn'', write_check_fn), (''write_fn'', write_fn)]"

text \<open>An operation hands a value back to its caller when its result type is not void.\<close>

definition returns_value :: "fn_type \<Rightarrow> bool" where
  "returns_value f = (fn_ret f \<noteq> Void)"

subsection \<open>The macros DEFS, ADEFS and TC\_DEFINE\<close>

text \<open>
  A function declaration is a function type and the declared name. \<^verbatim>\<open>DEFS(_s)\<close>
  pastes the class name into seven names; \<^verbatim>\<open>ADEFS(_s)\<close> declares two more when
  \<^verbatim>\<open>CONDITIONAL_SEARCH\<close> is defined and expands to nothing otherwise.
\<close>

type_synonym fn_decl = "fn_type \<times> string"

definition DEFS :: "string \<Rightarrow> fn_decl list" where
  "DEFS s =
     [(init_fn, ''init_'' @ s),
      (poll_fn, ''poll_'' @ s),
      (read_len_fn, ''read_'' @ s @ ''_len''),
      (read_fn, ''read_'' @ s),
      (read_done_fn, ''read_'' @ s @ ''_done''),
      (write_check_fn, ''write_'' @ s @ ''_check''),
      (write_fn, ''write_'' @ s)]"

definition ADEFS :: "bool \<Rightarrow> string \<Rightarrow> fn_decl list" where
  "ADEFS conditional_search s =
     (if conditional_search
      then [(alert_check_fn, ''alert_'' @ s @ ''_check''),
            (alert_fill_fn, ''alert_'' @ s @ ''_fill'')]
      else [])"

definition TC_DEFINE :: "bool \<Rightarrow> string \<Rightarrow> fn_decl list" where
  "TC_DEFINE conditional_search x = ADEFS conditional_search x @ DEFS x"

text \<open>
  \<^verbatim>\<open>#include "_def.h"\<close> with \<^verbatim>\<open>TC_DEFINE\<close> in force: one expansion for each
  class that \<^verbatim>\<open>_def.h\<close> lists.
\<close>

definition declared_functions :: "bool \<Rightarrow> string list \<Rightarrow> fn_decl list" where
  "declared_functions conditional_search defs =
     concat (map (TC_DEFINE conditional_search) defs)"

subsection \<open>The struct moat\_call\_t and the two tables\<close>

text \<open>
  The members of \<^verbatim>\<open>moat_call_t\<close> in order; a member \<open>(t, m)\<close> is the
  declaration \<^verbatim>\<open>t *m;\<close>.
\<close>

definition moat_call_t :: "bool \<Rightarrow> fn_decl list" where
  "moat_call_t conditional_search =
     [(init_fn, ''init''),
      (poll_fn, ''poll''),
      (read_len_fn, ''read_len''),
      (read_fn, ''read''),
      (read_done_fn, ''read_done''),
      (write_check_fn, ''write_check''),
      (write_fn, ''write'')]
     @ (if conditional_search
        then [(alert_check_fn, ''alert_check''), (alert_fill_fn, ''alert_fill'')]
        else [])"

text \<open>The names of the seven members that are not under the switch.\<close>

definition mandatory_members :: "string list" where
  "mandatory_members =
     [''init'', ''poll'', ''read_len'', ''read'', ''read_done'', ''write_check'', ''write'']"

datatype elem_type = Scalar ctype | Struct "fn_decl list"

record object_decl =
  obj_name :: string
  obj_const :: bool
  obj_progmem :: bool
  obj_elem :: elem_type
  obj_len :: nat

text \<open>\<^verbatim>\<open>extern const moat_call_t moat_calls[TC_MAX] __attribute__ ((progmem));\<close>\<close>

definition moat_calls_decl :: "bool \<Rightarrow> nat \<Rightarrow> object_decl" where
  "moat_calls_decl conditional_search tc_max =
     \<lparr>obj_name = ''moat_calls'', obj_const = True, obj_progmem = True,
      obj_elem = Struct (moat_call_t conditional_search), obj_len = tc_max\<rparr>"

text \<open>\<^verbatim>\<open>extern const uint8_t moat_sizes[TC_MAX] __attribute__ ((progmem));\<close>\<close>

definition moat_sizes_decl :: "nat \<Rightarrow> object_decl" where
  "moat_sizes_decl tc_max =
     \<lparr>obj_name = ''moat_sizes'', obj_const = True, obj_progmem = True,
      obj_elem = Scalar UInt8, obj_len = tc_max\<rparr>"

definition header_objects :: "bool \<Rightarrow> nat \<Rightarrow> object_decl list" where
  "header_objects conditional_search tc_max =
     [moat_calls_decl conditional_search tc_max, moat_sizes_decl tc_max]"

text \<open>The type of the element at an index of a declared array; none outside the array.\<close>

definition element_type :: "object_decl \<Rightarrow> nat \<Rightarrow> elem_type option" where
  "element_type d i = (if i < obj_len d then Some (obj_elem d) else None)"

section \<open>The parts the header only declares\<close>

subsection \<open>Completing a transmission\<close>

datatype control = Returned | Aborted

text \<open>
  Modelled from the spec: the body of \<^verbatim>\<open>end_transmission\<close> is missing; the header
  has its prototype and the comment "transmit the CRC, check that its complement
  is received correctly. If it is not, this will not return to the caller." The
  spec says the same: the function sends \<open>crc\<close>, receives the peer's answer,
  returns normally when the answer is the bitwise complement of \<open>crc\<close> and does
  not return otherwise. The peer's answer is the second argument.
\<close>

definition end_transmission :: "16 word \<Rightarrow> 16 word \<Rightarrow> control" where
  "end_transmission crc response = (if response = NOT crc then Returned else Aborted)"

subsection \<open>The contents of the registry\<close>

text \<open>A function pointer is null or the address of a named function.\<close>

datatype fnptr = Null | Addr string

text \<open>
  Modelled from the spec: the initialiser of \<^verbatim>\<open>moat_calls\<close> is missing. By the
  spec the table is composed at build time over the compiled-in device classes,
  one entry for each, holding that class's implementation of every operation
  of the contract. The entry of class \<open>x\<close> pairs the members of \<^verbatim>\<open>moat_call_t\<close>,
  in order, with the addresses of the functions that \<^verbatim>\<open>DEFS(x)\<close> and
  \<^verbatim>\<open>ADEFS(x)\<close> declare.
\<close>

definition class_entry :: "bool \<Rightarrow> string \<Rightarrow> (string \<times> fnptr) list" where
  "class_entry conditional_search x =
     zip (map snd (moat_call_t conditional_search))
         (map (\<lambda>d. Addr (snd d)) (DEFS x @ ADEFS conditional_search x))"

definition moat_calls :: "bool \<Rightarrow> string list \<Rightarrow> (string \<times> fnptr) list list" where
  "moat_calls conditional_search defs = map (class_entry conditional_search) defs"

text \<open>
  Modelled from the spec: the initialiser of \<^verbatim>\<open>moat_sizes\<close> is missing. The table
  runs parallel to \<^verbatim>\<open>moat_calls\<close>, one byte for each class; the values are the
  argument \<open>size_of\<close>.
\<close>

definition moat_sizes :: "(string \<Rightarrow> 8 word) \<Rightarrow> string list \<Rightarrow> 8 word list" where
  "moat_sizes size_of defs = map size_of defs"

text \<open>
  Modelled from the spec: \<^verbatim>\<open>TC_MAX\<close> is defined in \<^verbatim>\<open>moat.h\<close>, which is missing.
  By the spec it is the number of compiled-in device classes.
\<close>

definition TC_MAX :: "string list \<Rightarrow> nat" where
  "TC_MAX defs = length defs"

text \<open>
  Modelled from the spec: the registry's one operation, which yields the
  operations and the maximum size of a class. It is defined for an id below
  \<^verbatim>\<open>TC_MAX\<close> only; for any other id there is no result.
\<close>

definition lookup ::
  "bool \<Rightarrow> (string \<Rightarrow> 8 word) \<Rightarrow> string list \<Rightarrow> nat
     \<Rightarrow> ((string \<times> fnptr) list \<times> 8 word) option" where
  "lookup conditional_search size_of defs i =
     (if i < TC_MAX defs
      then Some (moat_calls conditional_search defs ! i, moat_sizes size_of defs ! i)
      else None)"

text \<open>The pointer an entry holds for a member; none when the entry has no such member.\<close>

definition member_ptr :: "(string \<times> fnptr) list \<Rightarrow> string \<Rightarrow> fnptr option" where
  "member_ptr e m = map_of e m"

section \<open>What the header fixes\<close>

lemmas fn_type_defs =
  init_fn_def poll_fn_def read_len_fn_def read_fn_def read_done_fn_def
  alert_check_fn_def alert_fill_fn_def write_check_fn_def write_fn_def

lemmas macro_defs = DEFS_def ADEFS_def TC_DEFINE_def moat_call_t_def

subsection \<open>Widths\<close>

lemma holds_value_UInt8: "holds_value UInt8 v \<longleftrightarrow> v \<le> 255"
  by (auto simp: holds_value_def)

lemma holds_value_UInt16: "holds_value UInt16 v \<longleftrightarrow> v \<le> 65535"
  by (auto simp: holds_value_def)

lemma card_UInt8: "card {v. holds_value UInt8 v} = 256"
proof -
  have "{v. holds_value UInt8 v} = {..<256}"
    by (auto simp: holds_value_def)
  then show ?thesis
    by simp
qed

text \<open>
  The prototype of \<^verbatim>\<open>end_transmission\<close>: one parameter, passed by value, of an
  unsigned type of 16 bits, and no result.
\<close>

lemma end_transmission_takes_one_uint16:
  "fn_params end_transmission_decl = [(''crc'', UInt16)]
   \<and> length (fn_params end_transmission_decl) = 1
   \<and> uint_bits (snd (hd (fn_params end_transmission_decl))) = Some 16
   \<and> \<not> returns_value end_transmission_decl"
  by (simp add: end_transmission_decl_def returns_value_def)

text \<open>
  The element type of \<^verbatim>\<open>moat_sizes\<close> does not keep an entry below \<^verbatim>\<open>MAXBUF\<close>:
  a byte holds values up to 255.
\<close>

lemma moat_sizes_type_admits_more_than_MAXBUF:
  "obj_elem (moat_sizes_decl tc_max) = Scalar UInt8 \<and> holds_value UInt8 255 \<and> MAXBUF < 255"
  by (simp add: moat_sizes_decl_def holds_value_def MAXBUF_def)

text \<open>
  C10: in every operation type of the header a parameter named \<^verbatim>\<open>chan\<close> or
  \<^verbatim>\<open>len\<close> has type \<^verbatim>\<open>uint8_t\<close>, the result of \<^verbatim>\<open>read_len\<close> has type
  \<^verbatim>\<open>uint8_t\<close> and so has every element of \<^verbatim>\<open>moat_sizes\<close>; a value of that type
  is at most 255, and there are 256 channel numbers.
\<close>

theorem channels_and_lengths_are_uint8:
  "(\<forall>(n, f) \<in> set fn_typedefs. \<forall>(p, t) \<in> set (fn_params f).
       p \<in> {''chan'', ''len''} \<longrightarrow> t = UInt8 \<and> (holds_value t v \<longrightarrow> v \<le> 255))
   \<and> fn_ret read_len_fn = UInt8
   \<and> (holds_value (fn_ret read_len_fn) v \<longrightarrow> v \<le> 255)
   \<and> obj_elem (moat_sizes_decl tc_max) = Scalar UInt8
   \<and> (holds_value UInt8 v \<longrightarrow> v \<le> 255)
   \<and> card {c. holds_value UInt8 c} = 256"
proof -
  have params: "\<forall>(n, f) \<in> set fn_typedefs. \<forall>(p, t) \<in> set (fn_params f).
       p \<in> {''chan'', ''len''} \<longrightarrow> t = UInt8 \<and> (holds_value t v \<longrightarrow> v \<le> 255)"
    by (simp add: fn_typedefs_def fn_type_defs holds_value_UInt8)
  have result: "fn_ret read_len_fn = UInt8"
    by (simp add: read_len_fn_def)
  have sizes: "obj_elem (moat_sizes_decl tc_max) = Scalar UInt8"
    by (simp add: moat_sizes_decl_def)
  from params result sizes show ?thesis
    by (simp add: holds_value_UInt8 card_UInt8)
qed

theorem channels_and_lengths_are_uint8_witness:
  "(''len'', UInt8) \<in> set (fn_params write_check_fn)
   \<and> (''chan'', UInt8) \<in> set (fn_params read_len_fn)
   \<and> holds_value UInt8 255 \<and> \<not> holds_value UInt8 256
   \<and> fn_ret read_len_fn = UInt8
   \<and> obj_elem (moat_sizes_decl 3) = Scalar UInt8
   \<and> card {c. holds_value UInt8 c} = 256"
  using channels_and_lengths_are_uint8 [of 256 3]
  by (simp add: write_check_fn_def read_len_fn_def holds_value_def)

subsection \<open>The type of write\_check\<close>

text \<open>
  \<^verbatim>\<open>write_check_fn\<close> is declared with the parameters and the result of
  \<^verbatim>\<open>write_fn\<close>: a channel of 8 bits, a pointer to the bytes, a length of 8 bits
  and the result \<^verbatim>\<open>void\<close>. Of the nine operation types only \<^verbatim>\<open>read_len_fn\<close>
  and \<^verbatim>\<open>alert_check_fn\<close> have a result. The header says nothing of what a
  \<^verbatim>\<open>write_check\<close> does with a write it refuses.
\<close>

lemma write_check_fn_is_write_fn:
  "write_check_fn = write_fn
   \<and> fn_ret write_check_fn = Void
   \<and> fn_params write_check_fn = [(''chan'', UInt8), (''buf'', Ptr UInt8), (''len'', UInt8)]"
  by (simp add: write_check_fn_def write_fn_def)

lemma operation_types_with_a_result:
  "map fst (filter (\<lambda>(n, f). returns_value f) fn_typedefs)
     = [''read_len_fn'', ''alert_check_fn'']"
  unfolding fn_typedefs_def returns_value_def fn_type_defs
  by simp

subsection \<open>The alert operations\<close>

lemma alert_prefix_not_in_DEFS:
  "take 6 nm = ''alert_'' \<Longrightarrow> nm \<notin> set (map snd (DEFS s))"
  by (auto simp: DEFS_def)

lemma alert_type_not_in_DEFS:
  "t \<in> {alert_check_fn, alert_fill_fn} \<Longrightarrow> t \<notin> set (map fst (DEFS s))"
  by (auto simp: DEFS_def fn_type_defs)

lemma declared_functions_without_switch:
  "declared_functions False defs = concat (map DEFS defs)"
proof -
  have "TC_DEFINE False = DEFS"
    by (rule ext) (simp add: TC_DEFINE_def ADEFS_def)
  then show ?thesis
    by (simp add: declared_functions_def)
qed

lemma no_alert_function_without_switch:
  assumes "d \<in> set (declared_functions False defs)"
  shows "take 6 (snd d) \<noteq> ''alert_'' \<and> fst d \<notin> {alert_check_fn, alert_fill_fn}"
proof -
  from assms obtain s where "d \<in> set (DEFS s)"
    by (auto simp: declared_functions_without_switch)
  then have "snd d \<in> set (map snd (DEFS s))" and "fst d \<in> set (map fst (DEFS s))"
    by (simp_all add: rev_image_eqI)
  then show ?thesis
    using alert_prefix_not_in_DEFS [of "snd d" s]
      alert_type_not_in_DEFS [of "fst d" s]
    by auto
qed

lemma alert_functions_with_switch:
  assumes "x \<in> set defs"
  shows "(alert_check_fn, ''alert_'' @ x @ ''_check'') \<in> set (declared_functions True defs)"
    and "(alert_fill_fn, ''alert_'' @ x @ ''_fill'') \<in> set (declared_functions True defs)"
  using assms
  by (auto simp: declared_functions_def TC_DEFINE_def ADEFS_def)

text \<open>
  The two function types \<^verbatim>\<open>alert_check_fn\<close> and \<^verbatim>\<open>alert_fill_fn\<close> are declared
  whatever the switch says; they are types, and without the switch no function
  and no member has either of them.
\<close>

lemma alert_fn_types_declared_always:
  "(''alert_check_fn'', alert_check_fn) \<in> set fn_typedefs
   \<and> (''alert_fill_fn'', alert_fill_fn) \<in> set fn_typedefs"
  by (simp add: fn_typedefs_def)

text \<open>
  C5: a member \<^verbatim>\<open>alert_check\<close> or \<^verbatim>\<open>alert_fill\<close> of \<^verbatim>\<open>moat_call_t\<close>, and a
  function \<^verbatim>\<open>alert_x_check\<close> or \<^verbatim>\<open>alert_x_fill\<close> of a class \<open>x\<close>, is declared
  exactly when \<^verbatim>\<open>CONDITIONAL_SEARCH\<close> is defined. Without it the struct has the
  seven mandatory members only, \<^verbatim>\<open>TC_DEFINE\<close> declares what \<^verbatim>\<open>DEFS\<close> declares,
  and no declared function or member has an alert name or an alert type. Every
  element of \<^verbatim>\<open>moat_calls\<close> has the one type \<^verbatim>\<open>moat_call_t\<close>.
\<close>

theorem alert_operations_iff_CONDITIONAL_SEARCH:
  "(''alert_check'' \<in> set (map snd (moat_call_t cs)) \<longleftrightarrow> cs)
   \<and> (''alert_fill'' \<in> set (map snd (moat_call_t cs)) \<longleftrightarrow> cs)
   \<and> (''alert_'' @ x @ ''_check'' \<in> set (map snd (TC_DEFINE cs x)) \<longleftrightarrow> cs)
   \<and> (''alert_'' @ x @ ''_fill'' \<in> set (map snd (TC_DEFINE cs x)) \<longleftrightarrow> cs)
   \<and> (x \<in> set defs \<longrightarrow>
        ((alert_check_fn, ''alert_'' @ x @ ''_check'') \<in> set (declared_functions cs defs) \<longleftrightarrow> cs)
        \<and> ((alert_fill_fn, ''alert_'' @ x @ ''_fill'') \<in> set (declared_functions cs defs) \<longleftrightarrow> cs))
   \<and> (\<not> cs \<longrightarrow>
        map snd (moat_call_t cs) = mandatory_members
        \<and> TC_DEFINE cs x = DEFS x
        \<and> (\<forall>d \<in> set (declared_functions cs defs @ moat_call_t cs).
              take 6 (snd d) \<noteq> ''alert_'' \<and> fst d \<notin> {alert_check_fn, alert_fill_fn}))
   \<and> (i < n \<longrightarrow> element_type (moat_calls_decl cs n) i = Some (Struct (moat_call_t cs)))"
proof (cases cs)
  case True
  then show ?thesis
    using alert_functions_with_switch [of x defs]
    by (simp add: macro_defs element_type_def moat_calls_decl_def)
next
  case False
  have members: "\<forall>d \<in> set (moat_call_t False).
      take 6 (snd d) \<noteq> ''alert_'' \<and> fst d \<notin> {alert_check_fn, alert_fill_fn}"
    by (simp add: moat_call_t_def fn_type_defs)
  have funs: "\<forall>d \<in> set (declared_functions False defs).
      take 6 (snd d) \<noteq> ''alert_'' \<and> fst d \<notin> {alert_check_fn, alert_fill_fn}"
    using no_alert_function_without_switch by blast
  have absent: "(alert_check_fn, ''alert_'' @ x @ ''_check'') \<notin> set (declared_functions False defs)"
    "(alert_fill_fn, ''alert_'' @ x @ ''_fill'') \<notin> set (declared_functions False defs)"
    using funs by auto
  from False members funs absent show ?thesis
    by (simp add: macro_defs mandatory_members_def element_type_def moat_calls_decl_def ball_Un)
qed

theorem alert_operations_iff_CONDITIONAL_SEARCH_witness:
  "''alert_port_check'' \<in> set (map snd (TC_DEFINE True ''port''))
   \<and> ''alert_port_check'' \<notin> set (map snd (TC_DEFINE False ''port''))
   \<and> (alert_fill_fn, ''alert_port_fill'') \<in> set (declared_functions True [''console'', ''port''])
   \<and> (alert_fill_fn, ''alert_port_fill'') \<notin> set (declared_functions False [''console'', ''port''])
   \<and> map snd (moat_call_t False) = mandatory_members
   \<and> ''alert_fill'' \<in> set (map snd (moat_call_t True))
   \<and> element_type (moat_calls_decl False 2) 1 = Some (Struct (moat_call_t False))"
  using alert_operations_iff_CONDITIONAL_SEARCH [of True "''port''" "[''console'', ''port'']" 1 2]
    alert_operations_iff_CONDITIONAL_SEARCH [of False "''port''" "[''console'', ''port'']" 1 2]
  by (simp add: macro_defs)

subsection \<open>The qualifiers of the two tables\<close>

text \<open>
  The header declares two objects, \<^verbatim>\<open>moat_calls\<close> and \<^verbatim>\<open>moat_sizes\<close>; each is
  \<^verbatim>\<open>const\<close>, placed in \<^verbatim>\<open>progmem\<close>, and an array of \<^verbatim>\<open>TC_MAX\<close> elements.
\<close>

lemma tables_declared_const_progmem:
  "map obj_name (header_objects cs n) = [''moat_calls'', ''moat_sizes'']
   \<and> map obj_const (header_objects cs n) = [True, True]
   \<and> map obj_progmem (header_objects cs n) = [True, True]
   \<and> map obj_len (header_objects cs n) = [n, n]"
  by (simp add: header_objects_def moat_calls_decl_def moat_sizes_decl_def)

section \<open>What the modelled parts give\<close>

subsection \<open>end\_transmission\<close>

text \<open>A peer that echoes the value itself is refused: no 16-bit value is its own complement.\<close>

lemma complement_differs: "NOT crc \<noteq> (crc :: 16 word)"
proof
  assume "NOT crc = crc"
  then have "bit (NOT crc) 0 = bit crc 0"
    by simp
  then show False
    by (simp add: bit_not_iff)
qed

lemma echo_of_the_crc_aborts: "end_transmission crc crc = Aborted"
  using complement_differs [of crc] by (auto simp: end_transmission_def)

lemma one_response_returns: "{r. end_transmission crc r = Returned} = {NOT crc}"
  by (auto simp: end_transmission_def)

text \<open>
  C1: \<^verbatim>\<open>end_transmission(crc)\<close> returns exactly when the peer's response is the
  bitwise complement of the 16-bit \<open>crc\<close>; on every other response it aborts,
  and it has no third outcome.
\<close>

theorem end_transmission_returns_iff_complement:
  "(end_transmission crc response = Returned \<longleftrightarrow> response = NOT crc)
   \<and> (end_transmission crc response = Aborted \<longleftrightarrow> response \<noteq> NOT crc)"
  by (simp add: end_transmission_def)

theorem end_transmission_returns_iff_complement_witness:
  "end_transmission 0x1234 0xEDCB = Returned
   \<and> end_transmission 0x1234 0x1234 = Aborted
   \<and> end_transmission 0xFFFF 0 = Returned
   \<and> end_transmission 0 0xEDCB = Aborted"
  using end_transmission_returns_iff_complement [of "0x1234" "0xEDCB"]
    end_transmission_returns_iff_complement [of "0x1234" "0x1234"]
    end_transmission_returns_iff_complement [of "0xFFFF" 0]
    end_transmission_returns_iff_complement [of 0 "0xEDCB"]
  by simp

subsection \<open>Registry lookup\<close>

lemma class_entry_mandatory:
  "m \<in> set mandatory_members \<Longrightarrow> \<exists>a. member_ptr (class_entry cs x) m = Some (Addr a)"
  by (cases cs)
    (auto simp: mandatory_members_def member_ptr_def class_entry_def moat_call_t_def DEFS_def ADEFS_def)

lemma class_entry_alert:
  "member_ptr (class_entry cs x) ''alert_check''
     = (if cs then Some (Addr (''alert_'' @ x @ ''_check'')) else None)"
  "member_ptr (class_entry cs x) ''alert_fill''
     = (if cs then Some (Addr (''alert_'' @ x @ ''_fill'')) else None)"
  by (cases cs; simp add: member_ptr_def class_entry_def moat_call_t_def DEFS_def ADEFS_def)+

text \<open>
  The members of \<^verbatim>\<open>moat_call_t\<close> and the functions declared for a class agree
  in number and, position by position, in type: each pointer of an entry is the
  address of a function of the member's type, declared by \<^verbatim>\<open>TC_DEFINE\<close>.
\<close>

lemma member_types_match_declarations:
  "map fst (moat_call_t cs) = map fst (DEFS x @ ADEFS cs x)"
  by (cases cs) (simp_all add: moat_call_t_def DEFS_def ADEFS_def)

lemma entry_functions_are_declared:
  "set (DEFS x @ ADEFS cs x) = set (TC_DEFINE cs x)"
  by (simp add: TC_DEFINE_def Un_commute)

lemma class_entry_members:
  "map fst (class_entry cs x) = map snd (moat_call_t cs)"
proof -
  have "length (map snd (moat_call_t cs)) = length (map (\<lambda>d. Addr (snd d)) (DEFS x @ ADEFS cs x))"
    by (cases cs) (simp_all add: macro_defs)
  then show ?thesis
    unfolding class_entry_def by (rule map_fst_zip)
qed

lemma lookup_in_range:
  "i < TC_MAX defs \<Longrightarrow>
   lookup cs size_of defs i = Some (class_entry cs (defs ! i), size_of (defs ! i))"
  by (simp add: lookup_def TC_MAX_def moat_calls_def moat_sizes_def)

text \<open>
  C3: for every id below \<^verbatim>\<open>TC_MAX\<close> the lookup yields an entry; in it each of
  the seven mandatory members holds the address of a function, not a null
  pointer, and the members \<^verbatim>\<open>alert_check\<close> and \<^verbatim>\<open>alert_fill\<close> exist, holding
  the address of a function, exactly when \<^verbatim>\<open>CONDITIONAL_SEARCH\<close> is defined.
\<close>

theorem lookup_total_and_populated:
  assumes "i < TC_MAX defs"
  shows "\<exists>e sz. lookup cs size_of defs i = Some (e, sz)
     \<and> (\<forall>m \<in> set mandatory_members.
           member_ptr e m \<noteq> None \<and> member_ptr e m \<noteq> Some Null)
     \<and> ((\<exists>a. member_ptr e ''alert_check'' = Some (Addr a)) \<longleftrightarrow> cs)
     \<and> ((\<exists>a. member_ptr e ''alert_fill'' = Some (Addr a)) \<longleftrightarrow> cs)
     \<and> (member_ptr e ''alert_check'' = None \<longleftrightarrow> \<not> cs)
     \<and> (member_ptr e ''alert_fill'' = None \<longleftrightarrow> \<not> cs)"
proof -
  let ?e = "class_entry cs (defs ! i)"
  have found: "lookup cs size_of defs i = Some (?e, size_of (defs ! i))"
    using assms by (rule lookup_in_range)
  have mandatory: "\<forall>m \<in> set mandatory_members.
      member_ptr ?e m \<noteq> None \<and> member_ptr ?e m \<noteq> Some Null"
  proof
    fix m
    assume "m \<in> set mandatory_members"
    then obtain a where "member_ptr ?e m = Some (Addr a)"
      using class_entry_mandatory by blast
    then show "member_ptr ?e m \<noteq> None \<and> member_ptr ?e m \<noteq> Some Null"
      by simp
  qed
  from found mandatory show ?thesis
    by (simp add: class_entry_alert)
qed

theorem lookup_total_and_populated_witness:
  "lookup False (\<lambda>_. 4) [''console'', ''port''] 1 = Some (class_entry False ''port'', 4)
   \<and> member_ptr (class_entry False ''port'') ''write_check'' = Some (Addr ''write_port_check'')
   \<and> member_ptr (class_entry False ''port'') ''alert_check'' = None
   \<and> member_ptr (class_entry True ''port'') ''alert_check'' = Some (Addr ''alert_port_check'')
   \<and> lookup False (\<lambda>_. 4) [''console'', ''port''] 2 = None"
  using lookup_total_and_populated [of 1 "[''console'', ''port'']" False "\<lambda>_. 4"]
    lookup_total_and_populated [of 1 "[''console'', ''port'']" True "\<lambda>_. 4"]
  by (simp add: lookup_def TC_MAX_def moat_calls_def moat_sizes_def member_ptr_def
      class_entry_def macro_defs)

end
